theory Spec2Isabelle
  imports Main "HOL-Library.Word"
begin

section \<open>Go strings\<close>

text \<open>
  A Go string is a sequence of bytes, here a \<^typ>\<open>string\<close>.  The functions below are
  the ones of the packages \<^verbatim>\<open>strings\<close> and \<^verbatim>\<open>strconv\<close> that
  \<^verbatim>\<open>pkg/cloud/network.go\<close> calls.
\<close>

fun HasPrefix :: "string \<Rightarrow> string \<Rightarrow> bool" where
  "HasPrefix s [] = True"
| "HasPrefix [] (p # ps) = False"
| "HasPrefix (c # s) (p # ps) = (c = p \<and> HasPrefix s ps)"

text \<open>\<^verbatim>\<open>strings.Contains(s, substr)\<close>: \<open>substr\<close> occurs in \<open>s\<close> as a contiguous block.\<close>

fun Contains :: "string \<Rightarrow> string \<Rightarrow> bool" where
  "Contains [] substr = (substr = [])"
| "Contains (c # s) substr = (HasPrefix (c # s) substr \<or> Contains s substr)"

text \<open>\<^verbatim>\<open>strings.Join(elems, sep)\<close>.\<close>

fun Join :: "string list \<Rightarrow> string \<Rightarrow> string" where
  "Join [] sep = []"
| "Join [x] sep = x"
| "Join (x # y # ys) sep = x @ sep @ Join (y # ys) sep"

text \<open>The digit \<open>d < 10\<close>, read from the table of digits as \<^verbatim>\<open>strconv\<close> does.\<close>

definition digit :: "nat \<Rightarrow> char" where
  "digit d = ''0123456789'' ! d"

function digits :: "nat \<Rightarrow> string" where
  "digits n = (if n < 10 then [digit n] else digits (n div 10) @ [digit (n mod 10)])"
  by pat_completeness auto
termination
  by (relation "measure (\<lambda>n. n)") auto

text \<open>\<^verbatim>\<open>strconv.Itoa(i)\<close>, also what the verb \<^verbatim>\<open>%d\<close> prints: the decimal numeral of \<open>i\<close>.\<close>

definition Itoa :: "int \<Rightarrow> string" where
  "Itoa i = (if i < 0 then CHR ''-'' # digits (nat (- i)) else digits (nat i))"

section \<open>Go errors\<close>

text \<open>
  A non-nil Go \<^verbatim>\<open>error\<close> is a value of \<open>error\<close>; the interface value that may be nil is an
  \<open>error option\<close>.  Three kinds of error occur: a plain message
  (\<^verbatim>\<open>errors.New\<close>, \<^verbatim>\<open>errors.Errorf\<close>, and whatever the remote client returns),
  a cause wrapped with a message (\<^verbatim>\<open>errors.Wrapf\<close> of \<^verbatim>\<open>github.com/pkg/errors\<close>) and
  the list of causes of \<^verbatim>\<open>github.com/hashicorp/go-multierror\<close>.
\<close>

datatype error =
    ErrorString string
  | WithMessage error string
  | MultiError "error list"

definition errors_New :: "string \<Rightarrow> error" where
  "errors_New msg = ErrorString msg"

text \<open>The formatted message is built where \<open>Errorf\<close> and \<open>Wrapf\<close> are called.\<close>

definition Errorf :: "string \<Rightarrow> error" where
  "Errorf msg = ErrorString msg"

definition Wrapf :: "error \<Rightarrow> string \<Rightarrow> error" where
  "Wrapf err msg = WithMessage err msg"

text \<open>
  \<^verbatim>\<open>multierror.ListFormatFunc\<close>, the default format of a \<^verbatim>\<open>*multierror.Error\<close>, on the
  texts of its causes.
\<close>

definition ListFormatFunc :: "string list \<Rightarrow> string" where
  "ListFormatFunc es =
     (case es of
        [e] \<Rightarrow> ''1 error occurred:'' @ [CHR 0x0A, CHR 0x09] @ ''* '' @ e @ [CHR 0x0A, CHR 0x0A]
      | _ \<Rightarrow> Itoa (int (length es)) @ '' errors occurred:'' @ [CHR 0x0A, CHR 0x09]
              @ Join (map (\<lambda>e. ''* '' @ e) es) [CHR 0x0A, CHR 0x09] @ [CHR 0x0A, CHR 0x0A])"

text \<open>The method \<^verbatim>\<open>Error()\<close>: the text of an error.\<close>

fun Error :: "error \<Rightarrow> string" where
  "Error (ErrorString msg) = msg"
| "Error (WithMessage cause msg) = msg @ '': '' @ Error cause"
| "Error (MultiError es) = ListFormatFunc (map Error es)"

fun flatten :: "error \<Rightarrow> error list" where
  "flatten (MultiError es) = es"
| "flatten e = [e]"

text \<open>
  \<^verbatim>\<open>multierror.Append(err, e)\<close> with one error to add: a nil \<open>err\<close> starts a new list, a
  \<^verbatim>\<open>*multierror.Error\<close> is extended, any other error becomes the first cause; an added
  \<^verbatim>\<open>*multierror.Error\<close> is flattened.  The result is never nil.
\<close>

fun Append :: "error option \<Rightarrow> error \<Rightarrow> error" where
  "Append None e = MultiError (flatten e)"
| "Append (Some (MultiError es)) e = MultiError (es @ flatten e)"
| "Append (Some x) e = MultiError (x # flatten e)"

section \<open>The cluster object\<close>

text \<open>
  Modelled from the spec: the type declarations of \<^verbatim>\<open>infrav1.CloudStackCluster\<close>
  (\<^verbatim>\<open>api/v1beta1\<close>) and \<^verbatim>\<open>clusterv1.APIEndpoint\<close>; the fields are those that
  \<^verbatim>\<open>network.go\<close> and its test read and write.  \<open>Port\<close> is an \<^verbatim>\<open>int32\<close>.
\<close>

record APIEndpoint =
  Host :: string
  Port :: "32 word"

record CloudStackClusterSpec =
  Zone :: string
  Network :: string
  Account :: string
  ControlPlaneEndpoint :: APIEndpoint

record CloudStackClusterStatus =
  ZoneID :: string
  DomainID :: string
  NetworkID :: string
  NetworkType :: string
  PublicIPID :: string
  LBRuleID :: string

record CloudStackCluster =
  Spec :: CloudStackClusterSpec
  Status :: CloudStackClusterStatus

section \<open>The remote client\<close>

text \<open>
  The responses of \<^verbatim>\<open>cloudstack-go\<close>, with the fields the code reads.  A field \<open>Id\<close> or
  \<open>Type\<close> carries the name of its struct as a suffix.  The client returns a response
  that is not nil whenever it returns a nil error, so a response is a value and a slice of
  pointers is a list of values.
\<close>

record cloudstack_Network =
  Id_Network :: string
  Type_Network :: string

record CreateNetworkResponse =
  Id_CreateNetworkResponse :: string
  Type_CreateNetworkResponse :: string

record PublicIpAddress =
  Id_PublicIpAddress :: string
  Ipaddress :: string
  Allocated :: string
  Associatednetworkid :: string

record ListPublicIpAddressesResponse =
  Count :: int
  PublicIpAddresses :: "PublicIpAddress list"

record LoadBalancerRule =
  Id_LoadBalancerRule :: string
  Publicport :: string

record ListLoadBalancerRulesResponse =
  LoadBalancerRules :: "LoadBalancerRule list"

record VirtualMachine =
  Id_VirtualMachine :: string

record ListLoadBalancerRuleInstancesResponse =
  LoadBalancerRuleInstances :: "VirtualMachine list"

text \<open>
  The parameter objects; a parameter that is set only on demand is an option.
\<close>

record CreateNetworkParams =
  displaytext_cn :: string
  name_cn :: string
  networkofferingid_cn :: string
  zoneid_cn :: string
  account_cn :: "string option"
  domainid_cn :: "string option"

record ListPublicIpAddressesParams =
  allocatedonly_lp :: "bool option"
  account_lp :: "string option"
  domainid_lp :: "string option"
  ipaddress_lp :: "string option"

record AssociateIpAddressParams =
  networkid_as :: "string option"
  ipaddress_as :: "string option"
  account_as :: "string option"
  domainid_as :: "string option"

record CreateEgressFirewallRuleParams =
  networkid_fw :: string
  protocol_fw :: string

record ListLoadBalancerRulesParams =
  publicipid_lr :: "string option"
  account_lr :: "string option"
  domainid_lr :: "string option"

record AssignToLoadBalancerRuleParams =
  id_al :: string
  virtualmachineids_al :: "string list option"

text \<open>The remote calls the code can issue, with their arguments.\<close>

datatype call =
    CallGetNetworkID string
  | CallGetNetworkByID string
  | CallGetNetworkOfferingID string
  | CallCreateNetwork CreateNetworkParams
  | CallListPublicIpAddresses ListPublicIpAddressesParams
  | CallAssociateIpAddress AssociateIpAddressParams
  | CallCreateEgressFirewallRule CreateEgressFirewallRuleParams
  | CallListLoadBalancerRules ListLoadBalancerRulesParams
  | CallListLoadBalancerRuleInstances string
  | CallAssignToLoadBalancerRule AssignToLoadBalancerRuleParams

text \<open>
  The cloud platform has a state \<open>'w\<close>; a remote call reads it and may change it, so that
  the same call can answer differently later.  A Go result \<^verbatim>\<open>(value, count, err)\<close> is a
  triple whose last component is the error or nil.
\<close>

record 'w CloudStackClient =
  GetNetworkID :: "string \<Rightarrow> 'w \<Rightarrow> (string \<times> int \<times> error option) \<times> 'w"
  GetNetworkByID :: "string \<Rightarrow> 'w \<Rightarrow> (cloudstack_Network \<times> int \<times> error option) \<times> 'w"
  GetNetworkOfferingID :: "string \<Rightarrow> 'w \<Rightarrow> (string \<times> int \<times> error option) \<times> 'w"
  CreateNetwork :: "CreateNetworkParams \<Rightarrow> 'w \<Rightarrow> (CreateNetworkResponse \<times> error option) \<times> 'w"
  ListPublicIpAddresses ::
    "ListPublicIpAddressesParams \<Rightarrow> 'w \<Rightarrow> (ListPublicIpAddressesResponse \<times> error option) \<times> 'w"
  AssociateIpAddress :: "AssociateIpAddressParams \<Rightarrow> 'w \<Rightarrow> error option \<times> 'w"
  CreateEgressFirewallRule :: "CreateEgressFirewallRuleParams \<Rightarrow> 'w \<Rightarrow> error option \<times> 'w"
  ListLoadBalancerRules ::
    "ListLoadBalancerRulesParams \<Rightarrow> 'w \<Rightarrow> (ListLoadBalancerRulesResponse \<times> error option) \<times> 'w"
  ListLoadBalancerRuleInstances ::
    "string \<Rightarrow> 'w \<Rightarrow> (ListLoadBalancerRuleInstancesResponse \<times> error option) \<times> 'w"
  AssignToLoadBalancerRule :: "AssignToLoadBalancerRuleParams \<Rightarrow> 'w \<Rightarrow> error option \<times> 'w"

text \<open>
  The state an operation runs in: the platform's state and the remote calls issued so far,
  oldest first.  \<open>invoke\<close> issues one call and records it.
\<close>

type_synonym 'w cloud = "'w \<times> call list"

definition invoke :: "call \<Rightarrow> ('w \<Rightarrow> 'r \<times> 'w) \<Rightarrow> 'w cloud \<Rightarrow> 'r \<times> 'w cloud" where
  "invoke ev f s = (case f (fst s) of (r, w') \<Rightarrow> (r, (w', snd s @ [ev])))"

section \<open>pkg/cloud/network.go\<close>

definition NetOffering :: string where
  "NetOffering = ''DefaultIsolatedNetworkOfferingWithSourceNatService''"

text \<open>
  Modelled from the spec: the helper \<^verbatim>\<open>setIfNotEmpty(str, setFn)\<close> of package
  \<^verbatim>\<open>cloud\<close>, which is not under \<^verbatim>\<open>src/\<close>: the optional account and domain are set
  only when the string is not empty.
\<close>

definition setIfNotEmpty :: "string \<Rightarrow> (string \<Rightarrow> 'p \<Rightarrow> 'p) \<Rightarrow> 'p \<Rightarrow> 'p" where
  "setIfNotEmpty str setFn p = (if str \<noteq> [] then setFn str p else p)"

text \<open>
  \<open>ResolveNetwork\<close> returns the error (nil is \<open>None\<close>), the cluster object as the call
  leaves it, and the state of the cloud.  Neither branch of the first test returns; the
  second lookup runs in every case, with the configured value as identity when the lookup
  by name failed.
\<close>

definition ResolveNetwork ::
  "'w CloudStackClient \<Rightarrow> CloudStackCluster \<Rightarrow> 'w cloud \<Rightarrow> error option \<times> CloudStackCluster \<times> 'w cloud"
where
  "ResolveNetwork c csCluster s =
     (case invoke (CallGetNetworkID (Network (Spec csCluster)))
             (GetNetworkID c (Network (Spec csCluster))) s of
        ((networkID0, count, err), s1) \<Rightarrow>
          let (retErr, networkID) =
                (case err of
                   Some e \<Rightarrow>
                     (Some (Append None (Wrapf e
                        (''Could not get Network ID from '' @ Network (Spec csCluster) @ ''.''))),
                      Network (Spec csCluster))
                 | None \<Rightarrow>
                     if count \<noteq> 1 then
                       (Some (Append None (Errorf
                          (''Expected 1 Network with name '' @ Network (Spec csCluster)
                            @ '', but got '' @ Itoa count @ ''.''))),
                        networkID0)
                     else (None, networkID0))
          in case invoke (CallGetNetworkByID networkID) (GetNetworkByID c networkID) s1 of
               ((networkDetails, count2, err2), s2) \<Rightarrow>
                 (case err2 of
                    Some e2 \<Rightarrow>
                      (Some (Append retErr (Wrapf e2
                         (''Could not get Network by ID '' @ networkID @ ''.''))),
                       csCluster, s2)
                  | None \<Rightarrow>
                      if count2 \<noteq> 1 then
                        (Some (Append retErr (Errorf
                           (''Expected 1 Network with UUID '' @ networkID
                             @ '', but got '' @ Itoa count2 @ ''.''))),
                         csCluster, s2)
                      else
                        (None,
                         csCluster\<lparr>Status := (Status csCluster)
                           \<lparr>NetworkID := networkID, NetworkType := Type_Network networkDetails\<rparr>\<rparr>,
                         s2)))"

text \<open>
  \<open>GetOrCreateNetwork\<close>: the network is created only when \<open>ResolveNetwork\<close> failed
  with an error whose text contains \<^verbatim>\<open>No match found\<close>.
\<close>

definition NewCreateNetworkParams :: "string \<Rightarrow> string \<Rightarrow> string \<Rightarrow> string \<Rightarrow> CreateNetworkParams" where
  "NewCreateNetworkParams displaytext name networkofferingid zoneid =
     \<lparr>displaytext_cn = displaytext, name_cn = name, networkofferingid_cn = networkofferingid,
      zoneid_cn = zoneid, account_cn = None, domainid_cn = None\<rparr>"

definition GetOrCreateNetwork ::
  "'w CloudStackClient \<Rightarrow> CloudStackCluster \<Rightarrow> 'w cloud \<Rightarrow> error option \<times> CloudStackCluster \<times> 'w cloud"
where
  "GetOrCreateNetwork c csCluster s =
     (case ResolveNetwork c csCluster s of
        (None, csCluster1, s1) \<Rightarrow> (None, csCluster1, s1)
      | (Some retErr, csCluster1, s1) \<Rightarrow>
          if \<not> Contains (Error retErr) ''No match found'' then (Some retErr, csCluster1, s1)
          else
            (case invoke (CallGetNetworkOfferingID NetOffering) (GetNetworkOfferingID c NetOffering) s1 of
               ((offeringId, count, retErr2), s2) \<Rightarrow>
                 (case retErr2 of
                    Some e \<Rightarrow> (Some e, csCluster1, s2)
                  | None \<Rightarrow>
                      if count \<noteq> 1 then
                        (Some (errors_New ''found more than one network offering.''), csCluster1, s2)
                      else
                        let p0 = NewCreateNetworkParams (Network (Spec csCluster1))
                                   (Network (Spec csCluster1)) offeringId (ZoneID (Status csCluster1));
                            p1 = setIfNotEmpty (Account (Spec csCluster1))
                                   (\<lambda>v q. q\<lparr>account_cn := Some v\<rparr>) p0;
                            p = setIfNotEmpty (DomainID (Status csCluster1))
                                   (\<lambda>v q. q\<lparr>domainid_cn := Some v\<rparr>) p1
                        in case invoke (CallCreateNetwork p) (CreateNetwork c p) s2 of
                             ((resp, err), s3) \<Rightarrow>
                               (case err of
                                  Some e \<Rightarrow> (Some e, csCluster1, s3)
                                | None \<Rightarrow>
                                    (None,
                                     csCluster1\<lparr>Status := (Status csCluster1)
                                       \<lparr>NetworkID := Id_CreateNetworkResponse resp,
                                        NetworkType := Type_CreateNetworkResponse resp\<rparr>\<rparr>,
                                     s3)))))"

text \<open>
  A Go function either returns or panics.  The one panic modelled is the index out of
  range of \<^verbatim>\<open>publicAddresses.PublicIpAddresses[0]\<close>, when the response counts an address
  and lists none.
\<close>

datatype 'a outcome = Returns 'a | Panics

definition NewListPublicIpAddressesParams :: ListPublicIpAddressesParams where
  "NewListPublicIpAddressesParams =
     \<lparr>allocatedonly_lp = None, account_lp = None, domainid_lp = None, ipaddress_lp = None\<rparr>"

text \<open>
  \<open>ResolvePublicIPDetails\<close> returns \<^verbatim>\<open>(nil, err)\<close>, here \<open>Inl err\<close>, or the first address
  of the list, here \<open>Inr\<close>.
\<close>

definition ResolvePublicIPDetails ::
  "'w CloudStackClient \<Rightarrow> CloudStackCluster \<Rightarrow> 'w cloud \<Rightarrow> (error + PublicIpAddress) outcome \<times> 'w cloud"
where
  "ResolvePublicIPDetails c csCluster s =
     (let p0 = NewListPublicIpAddressesParams\<lparr>allocatedonly_lp := Some False\<rparr>;
          p1 = setIfNotEmpty (Account (Spec csCluster)) (\<lambda>v q. q\<lparr>account_lp := Some v\<rparr>) p0;
          p2 = setIfNotEmpty (DomainID (Status csCluster)) (\<lambda>v q. q\<lparr>domainid_lp := Some v\<rparr>) p1;
          p = (if Host (ControlPlaneEndpoint (Spec csCluster)) \<noteq> []
               then p2\<lparr>ipaddress_lp := Some (Host (ControlPlaneEndpoint (Spec csCluster)))\<rparr>
               else p2)
      in case invoke (CallListPublicIpAddresses p) (ListPublicIpAddresses c p) s of
           ((publicAddresses, err), s1) \<Rightarrow>
             (case err of
                Some e \<Rightarrow> (Returns (Inl e), s1)
              | None \<Rightarrow>
                  if Count publicAddresses > 0 then
                    (case PublicIpAddresses publicAddresses of
                       [] \<Rightarrow> (Panics, s1)
                     | a # _ \<Rightarrow> (Returns (Inr a), s1))
                  else (Returns (Inl (errors_New ''no public addresses found'')), s1)))"

definition NewAssociateIpAddressParams :: AssociateIpAddressParams where
  "NewAssociateIpAddressParams =
     \<lparr>networkid_as = None, ipaddress_as = None, account_as = None, domainid_as = None\<rparr>"

text \<open>
  \<open>AssociatePublicIpAddress\<close>: the two assignments to the cluster object come before the
  test of the allocation timestamp and before the associate call, which reads the host
  just written.
\<close>

definition AssociatePublicIpAddress ::
  "'w CloudStackClient \<Rightarrow> CloudStackCluster \<Rightarrow> 'w cloud
     \<Rightarrow> error option outcome \<times> CloudStackCluster \<times> 'w cloud"
where
  "AssociatePublicIpAddress c csCluster s =
     (case ResolvePublicIPDetails c csCluster s of
        (Panics, s1) \<Rightarrow> (Panics, csCluster, s1)
      | (Returns (Inl err), s1) \<Rightarrow> (Returns (Some err), csCluster, s1)
      | (Returns (Inr publicAddress), s1) \<Rightarrow>
          let csCluster1 = csCluster\<lparr>Spec := (Spec csCluster)
                \<lparr>ControlPlaneEndpoint := (ControlPlaneEndpoint (Spec csCluster))
                   \<lparr>Host := Ipaddress publicAddress\<rparr>\<rparr>\<rparr>;
              csCluster2 = csCluster1\<lparr>Status := (Status csCluster1)
                \<lparr>PublicIPID := Id_PublicIpAddress publicAddress\<rparr>\<rparr>
          in if Allocated publicAddress \<noteq> []
                \<and> Associatednetworkid publicAddress = NetworkID (Status csCluster2)
             then (Returns None, csCluster2, s1)
             else
               let p0 = NewAssociateIpAddressParams
                          \<lparr>networkid_as := Some (NetworkID (Status csCluster2)),
                           ipaddress_as := Some (Host (ControlPlaneEndpoint (Spec csCluster2)))\<rparr>;
                   p1 = setIfNotEmpty (Account (Spec csCluster2))
                          (\<lambda>v q. q\<lparr>account_as := Some v\<rparr>) p0;
                   p = setIfNotEmpty (DomainID (Status csCluster2))
                          (\<lambda>v q. q\<lparr>domainid_as := Some v\<rparr>) p1
               in case invoke (CallAssociateIpAddress p) (AssociateIpAddress c p) s1 of
                    (err, s2) \<Rightarrow> (Returns err, csCluster2, s2))"

definition NewCreateEgressFirewallRuleParams :: "string \<Rightarrow> string \<Rightarrow> CreateEgressFirewallRuleParams" where
  "NewCreateEgressFirewallRuleParams networkid protocol =
     \<lparr>networkid_fw = networkid, protocol_fw = protocol\<rparr>"

definition OpenFirewallRules ::
  "'w CloudStackClient \<Rightarrow> CloudStackCluster \<Rightarrow> 'w cloud \<Rightarrow> error option \<times> CloudStackCluster \<times> 'w cloud"
where
  "OpenFirewallRules c csCluster s =
     (let p = NewCreateEgressFirewallRuleParams (NetworkID (Status csCluster)) ''tcp''
      in case invoke (CallCreateEgressFirewallRule p) (CreateEgressFirewallRule c p) s of
           (retErr, s1) \<Rightarrow>
             ((case retErr of
                 Some e \<Rightarrow> if Contains (Error e) ''There is already'' then None else Some e
               | None \<Rightarrow> None),
              csCluster, s1))"

text \<open>
  The loop of \<open>ResolveLoadBalancerRuleDetails\<close> over the rules, in the order of the
  response: the first rule whose public port is the numeral of the endpoint's port
  (an \<^verbatim>\<open>int32\<close> converted to \<^verbatim>\<open>int\<close>) gives the identity and ends the function.
\<close>

fun ResolveLoadBalancerRuleDetails_loop ::
  "LoadBalancerRule list \<Rightarrow> CloudStackCluster \<Rightarrow> error option \<times> CloudStackCluster"
where
  "ResolveLoadBalancerRuleDetails_loop [] csCluster =
     (Some (errors_New ''no load balancer rule found''), csCluster)"
| "ResolveLoadBalancerRuleDetails_loop (rule # rules) csCluster =
     (if Publicport rule = Itoa (sint (Port (ControlPlaneEndpoint (Spec csCluster))))
      then (None, csCluster\<lparr>Status := (Status csCluster)\<lparr>LBRuleID := Id_LoadBalancerRule rule\<rparr>\<rparr>)
      else ResolveLoadBalancerRuleDetails_loop rules csCluster)"

definition NewListLoadBalancerRulesParams :: ListLoadBalancerRulesParams where
  "NewListLoadBalancerRulesParams = \<lparr>publicipid_lr = None, account_lr = None, domainid_lr = None\<rparr>"

definition ResolveLoadBalancerRuleDetails ::
  "'w CloudStackClient \<Rightarrow> CloudStackCluster \<Rightarrow> 'w cloud \<Rightarrow> error option \<times> CloudStackCluster \<times> 'w cloud"
where
  "ResolveLoadBalancerRuleDetails c csCluster s =
     (let p0 = NewListLoadBalancerRulesParams\<lparr>publicipid_lr := Some (PublicIPID (Status csCluster))\<rparr>;
          p1 = setIfNotEmpty (Account (Spec csCluster)) (\<lambda>v q. q\<lparr>account_lr := Some v\<rparr>) p0;
          p = setIfNotEmpty (DomainID (Status csCluster)) (\<lambda>v q. q\<lparr>domainid_lr := Some v\<rparr>) p1
      in case invoke (CallListLoadBalancerRules p) (ListLoadBalancerRules c p) s of
           ((loadBalancerRules, err), s1) \<Rightarrow>
             (case err of
                Some e \<Rightarrow> (Some e, csCluster, s1)
              | None \<Rightarrow>
                  (case ResolveLoadBalancerRuleDetails_loop (LoadBalancerRules loadBalancerRules) csCluster of
                     (retErr, csCluster1) \<Rightarrow> (retErr, csCluster1, s1))))"

text \<open>
  The loop of \<open>AssignVMToLoadBalancerRule\<close> over the instances of the rule: true when
  one of them has the identity, which ends the function with nil.
\<close>

fun AssignVMToLoadBalancerRule_loop :: "VirtualMachine list \<Rightarrow> string \<Rightarrow> bool" where
  "AssignVMToLoadBalancerRule_loop [] instanceID = False"
| "AssignVMToLoadBalancerRule_loop (instance # instances) instanceID =
     (if Id_VirtualMachine instance = instanceID then True
      else AssignVMToLoadBalancerRule_loop instances instanceID)"

definition NewAssignToLoadBalancerRuleParams :: "string \<Rightarrow> AssignToLoadBalancerRuleParams" where
  "NewAssignToLoadBalancerRuleParams i = \<lparr>id_al = i, virtualmachineids_al = None\<rparr>"

definition AssignVMToLoadBalancerRule ::
  "'w CloudStackClient \<Rightarrow> CloudStackCluster \<Rightarrow> string \<Rightarrow> 'w cloud
     \<Rightarrow> error option \<times> CloudStackCluster \<times> 'w cloud"
where
  "AssignVMToLoadBalancerRule c csCluster instanceID s =
     (case invoke (CallListLoadBalancerRuleInstances (LBRuleID (Status csCluster)))
             (ListLoadBalancerRuleInstances c (LBRuleID (Status csCluster))) s of
        ((lbRuleInstances, retErr), s1) \<Rightarrow>
          (case retErr of
             Some e \<Rightarrow> (Some e, csCluster, s1)
           | None \<Rightarrow>
               if AssignVMToLoadBalancerRule_loop (LoadBalancerRuleInstances lbRuleInstances) instanceID
               then (None, csCluster, s1)
               else
                 let p = (NewAssignToLoadBalancerRuleParams (LBRuleID (Status csCluster)))
                           \<lparr>virtualmachineids_al := Some [instanceID]\<rparr>
                 in case invoke (CallAssignToLoadBalancerRule p) (AssignToLoadBalancerRule c p) s1 of
                      (retErr2, s2) \<Rightarrow> (retErr2, csCluster, s2)))"

section \<open>Machine membership\<close>

text \<open>
  The machine object, from the declarations of \<^verbatim>\<open>CloudStackMachine\<close>: the state of the
  instance and the readiness flag of its status, and of its metadata the finalizers and
  the deletion timestamp, which is set once the owner has asked for deletion.
\<close>

definition MachineFinalizer :: string where
  "MachineFinalizer = ''cloudstackmachine.infrastructure.cluster.x-k8s.io''"

record CloudStackMachine =
  Finalizers :: "string list"
  DeletionTimestamp :: "string option"
  InstanceState :: string
  Ready :: bool

text \<open>
  The two remote calls of the deletion path, with what each returned, and the client that
  answers them from the state of the platform.
\<close>

datatype membership_call =
    CallRemoveVMFromCksCluster "error option"
  | CallDestroyVMInstance "error option"

record 'w MembershipClient =
  RemoveVMFromCksCluster :: "'w \<Rightarrow> error option \<times> 'w"
  DestroyVMInstance :: "'w \<Rightarrow> error option \<times> 'w"

definition observe ::
  "(error option \<Rightarrow> membership_call) \<Rightarrow> ('w \<Rightarrow> error option \<times> 'w)
     \<Rightarrow> 'w \<times> membership_call list \<Rightarrow> error option \<times> 'w \<times> membership_call list"
where
  "observe ev f s = (case f (fst s) of (r, w') \<Rightarrow> (r, (w', snd s @ [ev r])))"

definition RemoveFinalizer :: "CloudStackMachine \<Rightarrow> string \<Rightarrow> CloudStackMachine" where
  "RemoveFinalizer m f = m\<lparr>Finalizers := removeAll f (Finalizers m)\<rparr>"

text \<open>
  Modelled from the spec: the deletion path of the machine membership state machine, whose
  reconciler (\<^verbatim>\<open>controllers/cks_machine_controller.go\<close>) is not under \<^verbatim>\<open>src/\<close>.  The
  path is entered only for a machine marked for deletion.  \<open>RemoveVMFromCksCluster\<close> is
  called first, unless the synchronization flag of the cluster is off; then
  \<open>DestroyVMInstance\<close>; the marker is removed after both.  A transition that fails leaves
  the object as it was and returns the error; there is no retry inside a pass.
\<close>

definition ReconcileDelete ::
  "'w MembershipClient \<Rightarrow> bool \<Rightarrow> CloudStackMachine \<Rightarrow> 'w \<times> membership_call list
     \<Rightarrow> error option \<times> CloudStackMachine \<times> 'w \<times> membership_call list"
where
  "ReconcileDelete c syncWithACS m s =
     (if DeletionTimestamp m = None then (None, m, s)
      else
        (case (if syncWithACS
               then observe CallRemoveVMFromCksCluster (RemoveVMFromCksCluster c) s
               else (None, s)) of
           (Some e, s1) \<Rightarrow> (Some e, m, s1)
         | (None, s1) \<Rightarrow>
             (case observe CallDestroyVMInstance (DestroyVMInstance c) s1 of
                (Some e, s2) \<Rightarrow> (Some e, m, s2)
              | (None, s2) \<Rightarrow> (None, RemoveFinalizer m MachineFinalizer, s2))))"

text \<open>
  Modelled from the spec: the deletion gate of the declarative state store, which is not
  under \<^verbatim>\<open>src/\<close>.  A record is removed physically only when it is marked for deletion
  and carries no marker; until then it can be retrieved.
\<close>

definition retrievable :: "CloudStackMachine \<Rightarrow> bool" where
  "retrievable m = (DeletionTimestamp m = None \<or> Finalizers m \<noteq> [])"

text \<open>
  Modelled from the spec: the trigger service, which is not under \<^verbatim>\<open>src/\<close>, runs one
  pass after the other on the same record, as long as the record exists; \<open>n\<close> bounds the
  number of passes.
\<close>

fun retire :: "nat \<Rightarrow> 'w MembershipClient \<Rightarrow> bool \<Rightarrow> CloudStackMachine
     \<Rightarrow> 'w \<times> membership_call list \<Rightarrow> CloudStackMachine \<times> 'w \<times> membership_call list"
where
  "retire 0 c syncWithACS m s = (m, s)"
| "retire (Suc n) c syncWithACS m s =
     (if retrievable m
      then (case ReconcileDelete c syncWithACS m s of (err, m1, s1) \<Rightarrow> retire n c syncWithACS m1 s1)
      else (m, s))"

text \<open>
  What a trace of the deletion path has to satisfy.  \<open>removed_before_destroy ok tr\<close>: every
  \<open>DestroyVMInstance\<close> in \<open>tr\<close> comes right after a \<open>RemoveVMFromCksCluster\<close> that returned
  nil; \<open>ok\<close> tells whether the call before \<open>tr\<close> was one.  \<open>both_succeeded tr\<close>: the trace
  holds a removal that returned nil, followed at once by a destruction that returned nil.
\<close>

fun removed_before_destroy :: "bool \<Rightarrow> membership_call list \<Rightarrow> bool" where
  "removed_before_destroy ok [] = True"
| "removed_before_destroy ok (CallRemoveVMFromCksCluster r # tr) = removed_before_destroy (r = None) tr"
| "removed_before_destroy ok (CallDestroyVMInstance r # tr) = (ok \<and> removed_before_destroy False tr)"

fun both_succeeded :: "membership_call list \<Rightarrow> bool" where
  "both_succeeded (CallRemoveVMFromCksCluster None # CallDestroyVMInstance None # tr) = True"
| "both_succeeded (ev # tr) = both_succeeded tr"
| "both_succeeded [] = False"

section \<open>Test doubles\<close>

text \<open>
  Concrete cluster objects and clients, after the mocks of \<^verbatim>\<open>network_test.go\<close>: the
  properties below are evaluated on them.  \<open>mockClient\<close> fails every call; each double
  overrides the calls it expects.
\<close>

definition csCluster0 :: CloudStackCluster where
  "csCluster0 =
     \<lparr>Spec = \<lparr>Zone = ''zone1'', Network = ''fakeNetName'', Account = '''',
               ControlPlaneEndpoint = \<lparr>Host = '''', Port = 6443\<rparr>\<rparr>,
      Status = \<lparr>ZoneID = '''', DomainID = '''', NetworkID = '''', NetworkType = '''',
                 PublicIPID = '''', LBRuleID = ''''\<rparr>\<rparr>"

definition unexpected :: error where
  "unexpected = ErrorString ''unexpected call''"

definition mockClient :: "'w CloudStackClient" where
  "mockClient =
     \<lparr>GetNetworkID = (\<lambda>name w. (('''', - 1, Some unexpected), w)),
      GetNetworkByID = (\<lambda>i w. ((\<lparr>Id_Network = '''', Type_Network = ''''\<rparr>, - 1, Some unexpected), w)),
      GetNetworkOfferingID = (\<lambda>name w. (('''', - 1, Some unexpected), w)),
      CreateNetwork = (\<lambda>p w. ((\<lparr>Id_CreateNetworkResponse = '''', Type_CreateNetworkResponse = ''''\<rparr>, Some unexpected), w)),
      ListPublicIpAddresses = (\<lambda>p w. ((\<lparr>Count = 0, PublicIpAddresses = []\<rparr>, Some unexpected), w)),
      AssociateIpAddress = (\<lambda>p w. (Some unexpected, w)),
      CreateEgressFirewallRule = (\<lambda>p w. (Some unexpected, w)),
      ListLoadBalancerRules = (\<lambda>p w. ((\<lparr>LoadBalancerRules = []\<rparr>, Some unexpected), w)),
      ListLoadBalancerRuleInstances = (\<lambda>i w. ((\<lparr>LoadBalancerRuleInstances = []\<rparr>, Some unexpected), w)),
      AssignToLoadBalancerRule = (\<lambda>p w. (Some unexpected, w))\<rparr>"

definition exactMatchClient :: "unit CloudStackClient" where
  "exactMatchClient = mockClient
     \<lparr>GetNetworkID := (\<lambda>name w. ((''fakeNetID'', 2, None), w)),
      GetNetworkByID := (\<lambda>i w. ((\<lparr>Id_Network = i, Type_Network = ''Isolated''\<rparr>, 1, None), w))\<rparr>"

definition ambiguousClient :: "unit CloudStackClient" where
  "ambiguousClient = mockClient
     \<lparr>GetNetworkID := (\<lambda>name w. (('''', 2, None), w)),
      GetNetworkByID := (\<lambda>i w. ((\<lparr>Id_Network = '''', Type_Network = ''''\<rparr>, 0, None), w))\<rparr>"

definition noMatch :: error where
  "noMatch = ErrorString ''No match found for blah.''"

definition byIDClient :: "unit CloudStackClient" where
  "byIDClient = mockClient
     \<lparr>GetNetworkID := (\<lambda>name w. (('''', - 1, Some noMatch), w)),
      GetNetworkByID := (\<lambda>i w.
         if i = ''fakeNetID'' then ((\<lparr>Id_Network = i, Type_Network = ''Isolated''\<rparr>, 1, None), w)
         else ((\<lparr>Id_Network = '''', Type_Network = ''''\<rparr>, - 1, Some noMatch), w))\<rparr>"

definition absentClient :: "unit CloudStackClient" where
  "absentClient = mockClient
     \<lparr>GetNetworkID := (\<lambda>name w. (('''', - 1, Some noMatch), w)),
      GetNetworkByID := (\<lambda>i w. ((\<lparr>Id_Network = '''', Type_Network = ''''\<rparr>, - 1, Some noMatch), w))\<rparr>"

fun isAssociateIpAddress :: "call \<Rightarrow> bool" where
  "isAssociateIpAddress (CallAssociateIpAddress p) = True"
| "isAssociateIpAddress _ = False"

definition associateCalls :: "call list \<Rightarrow> nat" where
  "associateCalls tr = length (filter isAssociateIpAddress tr)"

definition freeAddress :: PublicIpAddress where
  "freeAddress = \<lparr>Id_PublicIpAddress = ''PublicIPID'', Ipaddress = ''192.168.1.14'',
                   Allocated = '''', Associatednetworkid = ''''\<rparr>"

definition associateFailed :: error where
  "associateFailed = ErrorString ''Unable to associate the address''"

definition failingAssociateClient :: "unit CloudStackClient" where
  "failingAssociateClient = mockClient
     \<lparr>ListPublicIpAddresses := (\<lambda>p w. ((\<lparr>Count = 1, PublicIpAddresses = [freeAddress]\<rparr>, None), w)),
      AssociateIpAddress := (\<lambda>p w. (Some associateFailed, w))\<rparr>"

definition csClusterNet :: CloudStackCluster where
  "csClusterNet = csCluster0\<lparr>Status := (Status csCluster0)\<lparr>NetworkID := ''someNetID''\<rparr>\<rparr>"

definition listParams0 :: ListPublicIpAddressesParams where
  "listParams0 = \<lparr>allocatedonly_lp = Some False, account_lp = None, domainid_lp = None,
                   ipaddress_lp = None\<rparr>"

text \<open>
  What an associate call for the address \<open>a\<close> on the cluster \<open>cl\<close> has to carry: the
  network of the status, the address, and the account and the domain when they are set.
  \<open>withPublicAddress cl a\<close> is the cluster object with the address recorded.
\<close>

definition associateParamsOf :: "CloudStackCluster \<Rightarrow> PublicIpAddress \<Rightarrow> AssociateIpAddressParams" where
  "associateParamsOf cl a =
     \<lparr>networkid_as = Some (NetworkID (Status cl)),
      ipaddress_as = Some (Ipaddress a),
      account_as = (if Account (Spec cl) = [] then None else Some (Account (Spec cl))),
      domainid_as = (if DomainID (Status cl) = [] then None else Some (DomainID (Status cl)))\<rparr>"

definition withPublicAddress :: "CloudStackCluster \<Rightarrow> PublicIpAddress \<Rightarrow> CloudStackCluster" where
  "withPublicAddress cl a =
     cl\<lparr>Spec := (Spec cl)\<lparr>ControlPlaneEndpoint :=
            (ControlPlaneEndpoint (Spec cl))\<lparr>Host := Ipaddress a\<rparr>\<rparr>,
        Status := (Status cl)\<lparr>PublicIPID := Id_PublicIpAddress a\<rparr>\<rparr>"

text \<open>A platform whose state is the list of the associations it has been asked for.\<close>

definition recordingClient :: "PublicIpAddress \<Rightarrow> AssociateIpAddressParams list CloudStackClient" where
  "recordingClient a = mockClient
     \<lparr>ListPublicIpAddresses := (\<lambda>p w. ((\<lparr>Count = 1, PublicIpAddresses = [a]\<rparr>, None), w)),
      AssociateIpAddress := (\<lambda>p w. (None, w @ [p]))\<rparr>"

definition allocatedTo :: "string \<Rightarrow> PublicIpAddress" where
  "allocatedTo net = freeAddress\<lparr>Allocated := ''2022-01-01T00:00:00+0000'',
     Associatednetworkid := net\<rparr>"

definition associateParams0 :: AssociateIpAddressParams where
  "associateParams0 = \<lparr>networkid_as = Some ''someNetID'', ipaddress_as = Some ''192.168.1.14'',
     account_as = None, domainid_as = None\<rparr>"

definition firewallClient :: "error option \<Rightarrow> unit CloudStackClient" where
  "firewallClient r = mockClient\<lparr>CreateEgressFirewallRule := (\<lambda>p w. (r, w))\<rparr>"

definition alreadyThere :: error where
  "alreadyThere = ErrorString ''There is already a rule like this.''"

definition lbRulesClient :: "LoadBalancerRule list \<Rightarrow> unit CloudStackClient" where
  "lbRulesClient rules = mockClient
     \<lparr>ListLoadBalancerRules := (\<lambda>p w. ((\<lparr>LoadBalancerRules = rules\<rparr>, None), w))\<rparr>"

definition lbRulesParams0 :: ListLoadBalancerRulesParams where
  "lbRulesParams0 = \<lparr>publicipid_lr = Some '''', account_lr = None, domainid_lr = None\<rparr>"

fun isAssignToLoadBalancerRule :: "call \<Rightarrow> bool" where
  "isAssignToLoadBalancerRule (CallAssignToLoadBalancerRule p) = True"
| "isAssignToLoadBalancerRule _ = False"

definition assignCalls :: "call list \<Rightarrow> nat" where
  "assignCalls tr = length (filter isAssignToLoadBalancerRule tr)"

text \<open>A platform whose state is the list of the instances assigned to the rule.\<close>

definition lbPoolClient :: "string list CloudStackClient" where
  "lbPoolClient = mockClient
     \<lparr>ListLoadBalancerRuleInstances := (\<lambda>i w.
         ((\<lparr>LoadBalancerRuleInstances = map (\<lambda>v. \<lparr>Id_VirtualMachine = v\<rparr>) w\<rparr>, None), w)),
      AssignToLoadBalancerRule := (\<lambda>p w.
         (None, w @ (case virtualmachineids_al p of Some ids \<Rightarrow> ids | None \<Rightarrow> [])))\<rparr>"

fun isCreateNetwork :: "call \<Rightarrow> bool" where
  "isCreateNetwork (CallCreateNetwork p) = True"
| "isCreateNetwork _ = False"

definition createCalls :: "call list \<Rightarrow> nat" where
  "createCalls tr = length (filter isCreateNetwork tr)"

text \<open>A platform whose state tells whether the network has been created.\<close>

definition netClient :: "bool CloudStackClient" where
  "netClient = mockClient
     \<lparr>GetNetworkID := (\<lambda>name w.
         if w then ((''someNetID'', 1, None), w) else (('''', - 1, Some noMatch), w)),
      GetNetworkByID := (\<lambda>i w.
         if w \<and> i = ''someNetID''
         then ((\<lparr>Id_Network = ''someNetID'', Type_Network = ''Isolated''\<rparr>, 1, None), w)
         else ((\<lparr>Id_Network = '''', Type_Network = ''''\<rparr>, - 1, Some noMatch), w)),
      GetNetworkOfferingID := (\<lambda>name w. ((''someOfferingID'', 1, None), w)),
      CreateNetwork := (\<lambda>p w.
         ((\<lparr>Id_CreateNetworkResponse = ''someNetID'', Type_CreateNetworkResponse = ''Isolated''\<rparr>,
           None), True))\<rparr>"

definition createParams0 :: CreateNetworkParams where
  "createParams0 = \<lparr>displaytext_cn = ''fakeNetName'', name_cn = ''fakeNetName'',
     networkofferingid_cn = ''someOfferingID'', zoneid_cn = '''', account_cn = None,
     domainid_cn = None\<rparr>"

definition csClusterCreated :: CloudStackCluster where
  "csClusterCreated = csCluster0\<lparr>Status := (Status csCluster0)
     \<lparr>NetworkID := ''someNetID'', NetworkType := ''Isolated''\<rparr>\<rparr>"

definition createTrace :: "call list" where
  "createTrace = [CallGetNetworkID ''fakeNetName'', CallGetNetworkByID ''fakeNetName'',
     CallGetNetworkOfferingID NetOffering, CallCreateNetwork createParams0]"

definition readyMachine :: CloudStackMachine where
  "readyMachine = \<lparr>Finalizers = [MachineFinalizer], DeletionTimestamp = None,
     InstanceState = ''Running'', Ready = True\<rparr>"

definition deletedMachine :: CloudStackMachine where
  "deletedMachine = readyMachine\<lparr>DeletionTimestamp := Some ''2022-01-01T00:00:00Z''\<rparr>"

definition transient :: error where
  "transient = ErrorString ''Timeout''"

text \<open>
  A platform that counts the calls it has answered: the first removal fails, and so does
  a destruction among the first three calls.
\<close>

definition flakyClient :: "nat MembershipClient" where
  "flakyClient =
     \<lparr>RemoveVMFromCksCluster = (\<lambda>w. (if w = 0 then Some transient else None, Suc w)),
      DestroyVMInstance = (\<lambda>w. (if w < 3 then Some transient else None, Suc w))\<rparr>"

section \<open>Properties of the network operations\<close>

subsection \<open>Auxiliary facts\<close>

text \<open>\<open>Contains\<close> is the occurrence of a contiguous block.\<close>

lemma HasPrefix_iff: "HasPrefix s p \<longleftrightarrow> (\<exists>ss. s = p @ ss)"
  by (induction s p rule: HasPrefix.induct) auto

lemma Contains_iff: "Contains s substr \<longleftrightarrow> (\<exists>ps ss. s = ps @ substr @ ss)"
proof (induction s)
  case Nil
  then show ?case by simp
next
  case (Cons c s)
  show ?case
  proof
    assume "Contains (c # s) substr"
    then consider "HasPrefix (c # s) substr" | "Contains s substr" by auto
    then show "\<exists>ps ss. c # s = ps @ substr @ ss"
    proof cases
      case 1
      then obtain ss where "c # s = substr @ ss" by (auto simp add: HasPrefix_iff)
      then have "c # s = [] @ substr @ ss" by simp
      then show ?thesis by blast
    next
      case 2
      then obtain ps ss where "s = ps @ substr @ ss" using Cons.IH by blast
      then have "c # s = (c # ps) @ substr @ ss" by simp
      then show ?thesis by blast
    qed
  next
    assume "\<exists>ps ss. c # s = ps @ substr @ ss"
    then obtain ps ss where eq: "c # s = ps @ substr @ ss" by blast
    show "Contains (c # s) substr"
    proof (cases ps)
      case Nil
      with eq have "HasPrefix (c # s) substr" by (auto simp add: HasPrefix_iff)
      then show ?thesis by simp
    next
      case (Cons a ps')
      with eq have "s = ps' @ substr @ ss" by simp
      then have "Contains s substr" using Cons.IH by blast
      then show ?thesis by simp
    qed
  qed
qed

lemma ResolveNetwork_Spec: "Spec (fst (snd (ResolveNetwork c cl s))) = Spec cl"
  by (simp add: ResolveNetwork_def Let_def split: prod.splits option.splits)

lemma GetOrCreateNetwork_Spec: "Spec (fst (snd (GetOrCreateNetwork c cl s))) = Spec cl"
proof (cases "ResolveNetwork c cl s")
  case (fields r cl1 s1)
  then have "Spec cl1 = Spec cl"
    using ResolveNetwork_Spec [of c cl s] by simp
  with fields show ?thesis
    by (simp add: GetOrCreateNetwork_def Let_def split: prod.splits option.splits)
qed

lemma ResolveNetwork_found:
  assumes "GetNetworkID c (Network (Spec cl)) w = ((nid0, cnt, err), w1)"
    and "GetNetworkByID c (if err = None then nid0 else Network (Spec cl)) w1 = ((nd, 1, None), w2)"
  shows "ResolveNetwork c cl (w, tr) =
      (None,
       cl\<lparr>Status := (Status cl)\<lparr>NetworkID := (if err = None then nid0 else Network (Spec cl)),
                                 NetworkType := Type_Network nd\<rparr>\<rparr>,
       (w2, tr @ [CallGetNetworkID (Network (Spec cl)),
                  CallGetNetworkByID (if err = None then nid0 else Network (Spec cl))]))"
  using assms by (auto simp add: ResolveNetwork_def invoke_def split: option.splits)

lemma associateCalls_ResolvePublicIPDetails:
  "associateCalls (snd (snd (ResolvePublicIPDetails c cl (w, tr)))) = associateCalls tr"
  unfolding ResolvePublicIPDetails_def Let_def invoke_def
  by (auto simp add: associateCalls_def split: prod.splits option.splits list.splits)

lemma ResolveLoadBalancerRuleDetails_loop_find:
  "ResolveLoadBalancerRuleDetails_loop rules cl =
     (case find (\<lambda>rule. Publicport rule = Itoa (sint (Port (ControlPlaneEndpoint (Spec cl))))) rules of
        Some rule \<Rightarrow> (None, cl\<lparr>Status := (Status cl)\<lparr>LBRuleID := Id_LoadBalancerRule rule\<rparr>\<rparr>)
      | None \<Rightarrow> (Some (errors_New ''no load balancer rule found''), cl))"
  by (induction rules) simp_all

lemma AssignVMToLoadBalancerRule_loop_iff:
  "AssignVMToLoadBalancerRule_loop instances instanceID
     \<longleftrightarrow> instanceID \<in> Id_VirtualMachine ` set instances"
  by (induction instances) auto

lemma AssignVMToLoadBalancerRule_cluster:
  "fst (snd (AssignVMToLoadBalancerRule c cl instanceID s)) = cl"
  by (simp add: AssignVMToLoadBalancerRule_def Let_def split: prod.splits option.splits)

lemma AssignVMToLoadBalancerRule_present:
  assumes "ListLoadBalancerRuleInstances c (LBRuleID (Status cl)) w = ((resp, None), w1)"
    and "instanceID \<in> Id_VirtualMachine ` set (LoadBalancerRuleInstances resp)"
  shows "AssignVMToLoadBalancerRule c cl instanceID (w, tr) =
           (None, cl, (w1, tr @ [CallListLoadBalancerRuleInstances (LBRuleID (Status cl))]))"
  using assms
  by (simp add: AssignVMToLoadBalancerRule_def invoke_def AssignVMToLoadBalancerRule_loop_iff)

subsection \<open>Network resolution\<close>

text \<open>
  Claim C1, as amended.  When the lookup by name reports a count other than 1 and the
  lookup by identity that follows fails or reports a count other than 1,
  \<open>ResolveNetwork\<close> returns an error that is not nil and leaves the cluster object, hence
  \<open>NetworkID\<close> and \<open>NetworkType\<close>, as it was.  The identity looked up is the one the lookup
  by name returned, or the configured value when that lookup returned an error.
\<close>

theorem ResolveNetwork_not_one_error:
  assumes "GetNetworkID c (Network (Spec cl)) w = ((nid0, cnt, err), w1)"
    and "cnt \<noteq> 1"
    and "GetNetworkByID c (if err = None then nid0 else Network (Spec cl)) w1 = ((nd, cnt2, err2), w2)"
    and "err2 \<noteq> None \<or> cnt2 \<noteq> 1"
  shows "fst (ResolveNetwork c cl (w, tr)) \<noteq> None \<and> fst (snd (ResolveNetwork c cl (w, tr))) = cl"
  using assms by (auto simp add: ResolveNetwork_def invoke_def split: option.splits)

text \<open>The amended statement at a lookup by name that counts two networks.\<close>

theorem ResolveNetwork_not_one_error_witness:
  "fst (ResolveNetwork ambiguousClient csCluster0 ((), [])) \<noteq> None
   \<and> fst (snd (ResolveNetwork ambiguousClient csCluster0 ((), []))) = csCluster0"
  using ResolveNetwork_not_one_error [of ambiguousClient csCluster0 "()" "''''" 2 None "()"
      "\<lparr>Id_Network = '''', Type_Network = ''''\<rparr>" 0 None "()" "[]"]
  by (simp add: ambiguousClient_def mockClient_def csCluster0_def)

text \<open>
  Without the condition on the second lookup the statement fails: the lookup by name
  reports two networks and the identity of one of them, the lookup by that identity finds
  exactly one network, and \<open>ResolveNetwork\<close> returns nil with both status fields written.
\<close>

lemma ResolveNetwork_not_one_counterexample:
  "fst (GetNetworkID exactMatchClient (Network (Spec csCluster0)) ()) = (''fakeNetID'', 2, None)
   \<and> fst (ResolveNetwork exactMatchClient csCluster0 ((), [])) = None
   \<and> NetworkID (Status csCluster0) = ''''
   \<and> NetworkID (Status (fst (snd (ResolveNetwork exactMatchClient csCluster0 ((), []))))) = ''fakeNetID''
   \<and> NetworkType (Status csCluster0) = ''''
   \<and> NetworkType (Status (fst (snd (ResolveNetwork exactMatchClient csCluster0 ((), []))))) = ''Isolated''"
  by (simp add: ResolveNetwork_def invoke_def exactMatchClient_def mockClient_def csCluster0_def)

text \<open>
  Claim C9.  When the lookup by name returns an error and the lookup by identity that
  follows fails as well, by an error or by a count other than 1, \<open>ResolveNetwork\<close> returns
  one \<open>MultiError\<close> whose causes are the wrapped error of the first lookup and the error
  of the second, in this order; both lookups have been issued.
\<close>

theorem ResolveNetwork_compound_error:
  assumes "GetNetworkID c (Network (Spec cl)) w = ((nid0, cnt, Some e1), w1)"
    and "GetNetworkByID c (Network (Spec cl)) w1 = ((nd, cnt2, err2), w2)"
    and "err2 \<noteq> None \<or> cnt2 \<noteq> 1"
  shows "ResolveNetwork c cl (w, tr) =
      (Some (MultiError
         [Wrapf e1 (''Could not get Network ID from '' @ Network (Spec cl) @ ''.''),
          (case err2 of
             Some e2 \<Rightarrow> Wrapf e2 (''Could not get Network by ID '' @ Network (Spec cl) @ ''.'')
           | None \<Rightarrow> Errorf (''Expected 1 Network with UUID '' @ Network (Spec cl)
                             @ '', but got '' @ Itoa cnt2 @ ''.''))]),
       cl, (w2, tr @ [CallGetNetworkID (Network (Spec cl)), CallGetNetworkByID (Network (Spec cl))]))"
  using assms by (auto simp add: ResolveNetwork_def invoke_def Wrapf_def Errorf_def split: option.splits)

text \<open>The case of the test suite where neither lookup finds the network.\<close>

theorem ResolveNetwork_compound_error_witness:
  "ResolveNetwork absentClient csCluster0 ((), []) =
      (Some (MultiError
         [Wrapf noMatch ''Could not get Network ID from fakeNetName.'',
          Wrapf noMatch ''Could not get Network by ID fakeNetName.'']),
       csCluster0, ((), [CallGetNetworkID ''fakeNetName'', CallGetNetworkByID ''fakeNetName'']))"
  using ResolveNetwork_compound_error [of absentClient csCluster0 "()" "''''" "- 1" noMatch "()"
      "\<lparr>Id_Network = '''', Type_Network = ''''\<rparr>" "- 1" "Some noMatch" "()" "[]"]
  by (simp add: absentClient_def mockClient_def csCluster0_def)

text \<open>
  Claim C10.  When the lookup by name returns an error, \<open>ResolveNetwork\<close> looks the
  configured network value up as an identity; if that lookup returns exactly one network,
  the result is nil and the status holds the configured value as \<open>NetworkID\<close> and the type
  of the network found.
\<close>

theorem ResolveNetwork_identity_fallback:
  assumes "GetNetworkID c (Network (Spec cl)) w = ((nid0, cnt, Some e1), w1)"
    and "GetNetworkByID c (Network (Spec cl)) w1 = ((nd, 1, None), w2)"
  shows "ResolveNetwork c cl (w, tr) =
      (None,
       cl\<lparr>Status := (Status cl)\<lparr>NetworkID := Network (Spec cl), NetworkType := Type_Network nd\<rparr>\<rparr>,
       (w2, tr @ [CallGetNetworkID (Network (Spec cl)), CallGetNetworkByID (Network (Spec cl))]))"
  using assms by (simp add: ResolveNetwork_def invoke_def)

text \<open>The test \<^verbatim>\<open>resolves network details with network ID instead of network name\<close>.\<close>

theorem ResolveNetwork_identity_fallback_witness:
  "ResolveNetwork byIDClient (csCluster0\<lparr>Spec := (Spec csCluster0)\<lparr>Network := ''fakeNetID''\<rparr>\<rparr>) ((), []) =
      (None,
       csCluster0\<lparr>Spec := (Spec csCluster0)\<lparr>Network := ''fakeNetID''\<rparr>,
                  Status := (Status csCluster0)\<lparr>NetworkID := ''fakeNetID'', NetworkType := ''Isolated''\<rparr>\<rparr>,
       ((), [CallGetNetworkID ''fakeNetID'', CallGetNetworkByID ''fakeNetID'']))"
  using ResolveNetwork_identity_fallback [of byIDClient
      "csCluster0\<lparr>Spec := (Spec csCluster0)\<lparr>Network := ''fakeNetID''\<rparr>\<rparr>" "()" "''''" "- 1" noMatch "()"
      "\<lparr>Id_Network = ''fakeNetID'', Type_Network = ''Isolated''\<rparr>" "()" "[]"]
  by (simp add: byIDClient_def mockClient_def csCluster0_def)

text \<open>
  Claim C4.  \<open>GetOrCreateNetwork\<close> is called twice, the second time on the cluster object
  and the cloud state that the first call left.  If the platform then reports the network
  as found, that is the lookups of the second call resolve to the identity held in the
  status and the lookup by that identity returns exactly one network, then the second call
  returns nil, issues the two lookups and nothing else, so no further create call, and
  leaves the network identity of the status unchanged.
\<close>

theorem GetOrCreateNetwork_twice:
  assumes first: "GetOrCreateNetwork c cl (w, tr) = (r1, cl1, (w1, tr1))"
    and byname: "GetNetworkID c (Network (Spec cl)) w1 = ((nid0, cnt, err), w2)"
    and same: "(if err = None then nid0 else Network (Spec cl)) = NetworkID (Status cl1)"
    and found: "GetNetworkByID c (NetworkID (Status cl1)) w2 = ((nd, 1, None), w3)"
  shows "fst (GetOrCreateNetwork c cl1 (w1, tr1)) = None
       \<and> snd (snd (snd (GetOrCreateNetwork c cl1 (w1, tr1)))) =
           tr1 @ [CallGetNetworkID (Network (Spec cl)), CallGetNetworkByID (NetworkID (Status cl1))]
       \<and> createCalls (snd (snd (snd (GetOrCreateNetwork c cl1 (w1, tr1))))) = createCalls tr1
       \<and> NetworkID (Status (fst (snd (GetOrCreateNetwork c cl1 (w1, tr1))))) = NetworkID (Status cl1)"
proof -
  have spec: "Spec cl1 = Spec cl"
    using GetOrCreateNetwork_Spec [of c cl "(w, tr)"] first by simp
  have ident: "(if err = None then nid0 else Network (Spec cl1)) = NetworkID (Status cl1)"
    unfolding spec by (rule same)
  have byname1: "GetNetworkID c (Network (Spec cl1)) w1 = ((nid0, cnt, err), w2)"
    using byname spec by simp
  have found1: "GetNetworkByID c (if err = None then nid0 else Network (Spec cl1)) w2 = ((nd, 1, None), w3)"
    unfolding ident by (rule found)
  have "ResolveNetwork c cl1 (w1, tr1) =
      (None, cl1\<lparr>Status := (Status cl1)\<lparr>NetworkID := NetworkID (Status cl1),
                                           NetworkType := Type_Network nd\<rparr>\<rparr>,
       (w3, tr1 @ [CallGetNetworkID (Network (Spec cl1)), CallGetNetworkByID (NetworkID (Status cl1))]))"
    using ResolveNetwork_found [OF byname1 found1, of tr1] unfolding ident .
  then show ?thesis
    using spec by (simp add: GetOrCreateNetwork_def createCalls_def)
qed

text \<open>
  A platform without the network: the first call creates it, the second call finds it.
\<close>

theorem GetOrCreateNetwork_twice_witness:
  "GetOrCreateNetwork netClient csCluster0 (False, []) = (None, csClusterCreated, (True, createTrace))
   \<and> fst (GetOrCreateNetwork netClient csClusterCreated (True, createTrace)) = None
   \<and> snd (snd (snd (GetOrCreateNetwork netClient csClusterCreated (True, createTrace)))) =
        createTrace @ [CallGetNetworkID ''fakeNetName'', CallGetNetworkByID ''someNetID'']
   \<and> createCalls (snd (snd (snd (GetOrCreateNetwork netClient csClusterCreated (True, createTrace))))) = 1
   \<and> NetworkID (Status (fst (snd (GetOrCreateNetwork netClient csClusterCreated (True, createTrace))))) =
        ''someNetID''"
proof -
  have first: "GetOrCreateNetwork netClient csCluster0 (False, []) =
      (None, csClusterCreated, (True, createTrace))"
    by (simp add: GetOrCreateNetwork_def ResolveNetwork_def invoke_def netClient_def mockClient_def
        csCluster0_def csClusterCreated_def createTrace_def noMatch_def createParams0_def
        NewCreateNetworkParams_def setIfNotEmpty_def
        Wrapf_def Errorf_def ListFormatFunc_def Itoa_def digit_def)
  have byname: "GetNetworkID netClient (Network (Spec csCluster0)) True = ((''someNetID'', 1, None), True)"
    by (simp add: netClient_def mockClient_def)
  have same: "(if (None :: error option) = None then ''someNetID'' else Network (Spec csCluster0)) =
      NetworkID (Status csClusterCreated)"
    by (simp add: csClusterCreated_def)
  have found: "GetNetworkByID netClient (NetworkID (Status csClusterCreated)) True =
      ((\<lparr>Id_Network = ''someNetID'', Type_Network = ''Isolated''\<rparr>, 1, None), True)"
    by (simp add: netClient_def mockClient_def csClusterCreated_def)
  have net: "Network (Spec csCluster0) = ''fakeNetName''" "NetworkID (Status csClusterCreated) = ''someNetID''"
    by (simp_all add: csCluster0_def csClusterCreated_def)
  show ?thesis
    using GetOrCreateNetwork_twice [OF first byname same found] first net
    by (simp add: createCalls_def createTrace_def)
qed

subsection \<open>Public address\<close>

text \<open>
  Once the lookup has resolved an address, \<open>AssociatePublicIpAddress\<close> is determined by
  the address and by the answer of the platform to the associate call.
\<close>

lemma AssociatePublicIpAddress_resolved:
  assumes "ResolvePublicIPDetails c cl s = (Returns (Inr a), s1)"
  shows "AssociatePublicIpAddress c cl s =
     (if Allocated a \<noteq> [] \<and> Associatednetworkid a = NetworkID (Status cl)
      then (Returns None, withPublicAddress cl a, s1)
      else (case AssociateIpAddress c (associateParamsOf cl a) (fst s1) of
              (err, w2) \<Rightarrow>
                (Returns err, withPublicAddress cl a,
                 (w2, snd s1 @ [CallAssociateIpAddress (associateParamsOf cl a)]))))"
proof -
  have params: "setIfNotEmpty (DomainID (Status cl)) (\<lambda>v q. q\<lparr>domainid_as := Some v\<rparr>)
       (setIfNotEmpty (Account (Spec cl)) (\<lambda>v q. q\<lparr>account_as := Some v\<rparr>)
          (NewAssociateIpAddressParams
             \<lparr>networkid_as := Some (NetworkID (Status cl)), ipaddress_as := Some (Ipaddress a)\<rparr>)) =
      associateParamsOf cl a"
    by (simp add: setIfNotEmpty_def NewAssociateIpAddressParams_def associateParamsOf_def)
  show ?thesis
    using assms params
    by (simp add: AssociatePublicIpAddress_def invoke_def Let_def withPublicAddress_def
        split: prod.splits)
qed

text \<open>
  Claim C2, as amended.  \<open>AssociatePublicIpAddress\<close> writes the endpoint host and
  \<open>PublicIPID\<close> as soon as the lookup of the public address has succeeded, before the
  associate call and whatever that call returns; when the lookup returns no address the
  cluster object is unchanged.  That the write comes first shows in the call: the associate
  call is the last call of the trace, the result is what the platform answered to it, and
  the address it carries is the host of the cluster object returned, that of the address
  found.
\<close>

theorem AssociatePublicIpAddress_writes_after_resolve:
  "fst (snd (AssociatePublicIpAddress c cl s)) =
     (case fst (ResolvePublicIPDetails c cl s) of
        Returns (Inr a) \<Rightarrow>
          cl\<lparr>Spec := (Spec cl)\<lparr>ControlPlaneEndpoint :=
                 (ControlPlaneEndpoint (Spec cl))\<lparr>Host := Ipaddress a\<rparr>\<rparr>,
             Status := (Status cl)\<lparr>PublicIPID := Id_PublicIpAddress a\<rparr>\<rparr>
      | _ \<Rightarrow> cl)
   \<and> (\<forall>a s1.
         ResolvePublicIPDetails c cl s = (Returns (Inr a), s1)
         \<and> (Allocated a = [] \<or> Associatednetworkid a \<noteq> NetworkID (Status cl)) \<longrightarrow>
           fst (AssociatePublicIpAddress c cl s) =
             Returns (fst (AssociateIpAddress c (associateParamsOf cl a) (fst s1)))
         \<and> fst (snd (snd (AssociatePublicIpAddress c cl s))) =
             snd (AssociateIpAddress c (associateParamsOf cl a) (fst s1))
         \<and> snd (snd (snd (AssociatePublicIpAddress c cl s))) =
             snd s1 @ [CallAssociateIpAddress (associateParamsOf cl a)]
         \<and> ipaddress_as (associateParamsOf cl a) =
             Some (Host (ControlPlaneEndpoint (Spec (fst (snd (AssociatePublicIpAddress c cl s))))))
         \<and> ipaddress_as (associateParamsOf cl a) = Some (Ipaddress a))"
proof -
  have object: "fst (snd (AssociatePublicIpAddress c cl s)) =
     (case fst (ResolvePublicIPDetails c cl s) of
        Returns (Inr a) \<Rightarrow>
          cl\<lparr>Spec := (Spec cl)\<lparr>ControlPlaneEndpoint :=
                 (ControlPlaneEndpoint (Spec cl))\<lparr>Host := Ipaddress a\<rparr>\<rparr>,
             Status := (Status cl)\<lparr>PublicIPID := Id_PublicIpAddress a\<rparr>\<rparr>
      | _ \<Rightarrow> cl)"
    by (simp add: AssociatePublicIpAddress_def Let_def split: prod.splits outcome.splits sum.splits)
  have call: "fst (AssociatePublicIpAddress c cl s) =
             Returns (fst (AssociateIpAddress c (associateParamsOf cl a) (fst s1)))
         \<and> fst (snd (snd (AssociatePublicIpAddress c cl s))) =
             snd (AssociateIpAddress c (associateParamsOf cl a) (fst s1))
         \<and> snd (snd (snd (AssociatePublicIpAddress c cl s))) =
             snd s1 @ [CallAssociateIpAddress (associateParamsOf cl a)]
         \<and> ipaddress_as (associateParamsOf cl a) =
             Some (Host (ControlPlaneEndpoint (Spec (fst (snd (AssociatePublicIpAddress c cl s))))))
         \<and> ipaddress_as (associateParamsOf cl a) = Some (Ipaddress a)"
    if "ResolvePublicIPDetails c cl s = (Returns (Inr a), s1)"
      and "Allocated a = [] \<or> Associatednetworkid a \<noteq> NetworkID (Status cl)"
    for a s1
    using that AssociatePublicIpAddress_resolved [OF that(1)]
    by (auto simp add: withPublicAddress_def associateParamsOf_def split: prod.splits)
  show ?thesis
    using object call by blast
qed

text \<open>
  A lookup that succeeds before a failing associate call, on a cluster whose host is
  empty: the call carries the address found.  And a failing lookup.
\<close>

theorem AssociatePublicIpAddress_writes_after_resolve_witness:
  "AssociatePublicIpAddress failingAssociateClient csClusterNet ((), []) =
     (Returns (Some associateFailed),
      csClusterNet\<lparr>Spec := (Spec csClusterNet)\<lparr>ControlPlaneEndpoint :=
                 (ControlPlaneEndpoint (Spec csClusterNet))\<lparr>Host := ''192.168.1.14''\<rparr>\<rparr>,
             Status := (Status csClusterNet)\<lparr>PublicIPID := ''PublicIPID''\<rparr>\<rparr>,
      ((), [CallListPublicIpAddresses listParams0, CallAssociateIpAddress associateParams0]))
   \<and> Host (ControlPlaneEndpoint (Spec csClusterNet)) = ''''
   \<and> fst (snd (AssociatePublicIpAddress mockClient csCluster0 ((), []))) = csCluster0"
proof -
  have resolved: "ResolvePublicIPDetails failingAssociateClient csClusterNet ((), []) =
      (Returns (Inr freeAddress), ((), [CallListPublicIpAddresses listParams0]))"
    by (simp add: ResolvePublicIPDetails_def invoke_def failingAssociateClient_def mockClient_def
        csClusterNet_def csCluster0_def listParams0_def NewListPublicIpAddressesParams_def
        setIfNotEmpty_def)
  have failed: "fst (ResolvePublicIPDetails (mockClient :: unit CloudStackClient) csCluster0 ((), [])) =
      Returns (Inl unexpected)"
    by (simp add: ResolvePublicIPDetails_def invoke_def mockClient_def Let_def)
  have free: "Allocated freeAddress = []"
    by (simp add: freeAddress_def)
  have params: "associateParamsOf csClusterNet freeAddress = associateParams0"
    by (simp add: associateParamsOf_def associateParams0_def csClusterNet_def csCluster0_def
        freeAddress_def)
  have answer: "AssociateIpAddress failingAssociateClient associateParams0 () = (Some associateFailed, ())"
    by (simp add: failingAssociateClient_def mockClient_def)
  have host: "Host (ControlPlaneEndpoint (Spec csClusterNet)) = ''''"
    by (simp add: csClusterNet_def csCluster0_def)
  show ?thesis
    using AssociatePublicIpAddress_writes_after_resolve [of failingAssociateClient csClusterNet "((), [])"]
      AssociatePublicIpAddress_writes_after_resolve [of "mockClient :: unit CloudStackClient" csCluster0 "((), [])"]
      resolved failed free params answer host
    by (auto simp add: prod_eq_iff freeAddress_def)
qed

text \<open>
  The associate call fails and both fields have changed all the same: the host and the
  identity of the address found are in the cluster object.
\<close>

theorem AssociatePublicIpAddress_writes_before_associate_counterexample:
  "fst (AssociatePublicIpAddress failingAssociateClient csCluster0 ((), [])) = Returns (Some associateFailed)
   \<and> Host (ControlPlaneEndpoint (Spec csCluster0)) = ''''
   \<and> Host (ControlPlaneEndpoint (Spec (fst (snd
        (AssociatePublicIpAddress failingAssociateClient csCluster0 ((), [])))))) = ''192.168.1.14''
   \<and> PublicIPID (Status csCluster0) = ''''
   \<and> PublicIPID (Status (fst (snd
        (AssociatePublicIpAddress failingAssociateClient csCluster0 ((), []))))) = ''PublicIPID''"
  by (simp add: AssociatePublicIpAddress_def ResolvePublicIPDetails_def invoke_def
      failingAssociateClient_def mockClient_def csCluster0_def freeAddress_def
      NewListPublicIpAddressesParams_def NewAssociateIpAddressParams_def setIfNotEmpty_def)

text \<open>
  Claim C3.  For the public address that the lookup resolved, \<open>AssociatePublicIpAddress\<close>
  issues exactly one associate call when the allocation timestamp is empty, none when the
  timestamp is not empty and the associated network is the network of the status, and one
  when the timestamp is not empty and the associated network is another one.  An issued
  call is the call of the client for that address and the network of the status: it comes
  last in the trace, the platform is left in the state the call produced, and the result is
  the answer of the call.  Without a call the result is nil and the platform is untouched.
  In each case the address is recorded in the cluster object.
\<close>

theorem AssociatePublicIpAddress_associate_calls:
  assumes "ResolvePublicIPDetails c cl (w, tr) = (Returns (Inr a), (w1, tr1))"
  shows "(Allocated a = [] \<longrightarrow>
            AssociatePublicIpAddress c cl (w, tr) =
              (Returns (fst (AssociateIpAddress c (associateParamsOf cl a) w1)),
               withPublicAddress cl a,
               (snd (AssociateIpAddress c (associateParamsOf cl a) w1),
                tr1 @ [CallAssociateIpAddress (associateParamsOf cl a)]))
            \<and> associateCalls (snd (snd (snd (AssociatePublicIpAddress c cl (w, tr))))) = associateCalls tr + 1)
       \<and> (Allocated a \<noteq> [] \<and> Associatednetworkid a = NetworkID (Status cl) \<longrightarrow>
            AssociatePublicIpAddress c cl (w, tr) = (Returns None, withPublicAddress cl a, (w1, tr1))
            \<and> associateCalls (snd (snd (snd (AssociatePublicIpAddress c cl (w, tr))))) = associateCalls tr)
       \<and> (Allocated a \<noteq> [] \<and> Associatednetworkid a \<noteq> NetworkID (Status cl) \<longrightarrow>
            AssociatePublicIpAddress c cl (w, tr) =
              (Returns (fst (AssociateIpAddress c (associateParamsOf cl a) w1)),
               withPublicAddress cl a,
               (snd (AssociateIpAddress c (associateParamsOf cl a) w1),
                tr1 @ [CallAssociateIpAddress (associateParamsOf cl a)]))
            \<and> associateCalls (snd (snd (snd (AssociatePublicIpAddress c cl (w, tr))))) = associateCalls tr + 1)"
proof -
  have tr1: "associateCalls tr1 = associateCalls tr"
    using associateCalls_ResolvePublicIPDetails [of c cl w tr] assms by simp
  show ?thesis
    using AssociatePublicIpAddress_resolved [OF assms] tr1
    by (auto simp add: associateCalls_def split: prod.splits)
qed

text \<open>
  The three cases, on a cluster whose network is \<^verbatim>\<open>someNetID\<close> and a platform that
  keeps the associations it is asked for.
\<close>

theorem AssociatePublicIpAddress_associate_calls_witness:
  "AssociatePublicIpAddress (recordingClient freeAddress) csClusterNet ([], []) =
     (Returns None, withPublicAddress csClusterNet freeAddress,
      ([associateParams0],
       [CallListPublicIpAddresses listParams0, CallAssociateIpAddress associateParams0]))
   \<and> AssociatePublicIpAddress (recordingClient (allocatedTo ''someNetID'')) csClusterNet ([], []) =
     (Returns None, withPublicAddress csClusterNet (allocatedTo ''someNetID''),
      ([], [CallListPublicIpAddresses listParams0]))
   \<and> AssociatePublicIpAddress (recordingClient (allocatedTo ''otherNetID'')) csClusterNet ([], []) =
     (Returns None, withPublicAddress csClusterNet (allocatedTo ''otherNetID''),
      ([associateParams0],
       [CallListPublicIpAddresses listParams0, CallAssociateIpAddress associateParams0]))
   \<and> associateCalls [CallListPublicIpAddresses listParams0, CallAssociateIpAddress associateParams0] = 1
   \<and> associateCalls [CallListPublicIpAddresses listParams0] = 0"
proof -
  have resolved: "ResolvePublicIPDetails (recordingClient a) csClusterNet ([], []) =
      (Returns (Inr a), ([], [CallListPublicIpAddresses listParams0]))" for a
    by (simp add: ResolvePublicIPDetails_def invoke_def recordingClient_def mockClient_def
        csClusterNet_def csCluster0_def listParams0_def NewListPublicIpAddressesParams_def
        setIfNotEmpty_def)
  have params: "associateParamsOf csClusterNet freeAddress = associateParams0"
    "associateParamsOf csClusterNet (allocatedTo net) = associateParams0" for net
    by (simp_all add: associateParamsOf_def associateParams0_def csClusterNet_def csCluster0_def
        freeAddress_def allocatedTo_def)
  have answer: "AssociateIpAddress (recordingClient a) p [] = (None, [p])" for a p
    by (simp add: recordingClient_def mockClient_def)
  have stamps: "Allocated freeAddress = []" "Allocated (allocatedTo net) \<noteq> []"
    "Associatednetworkid (allocatedTo net) = net" for net
    by (simp_all add: freeAddress_def allocatedTo_def)
  have net: "NetworkID (Status csClusterNet) = ''someNetID''"
    by (simp add: csClusterNet_def)
  show ?thesis
    using AssociatePublicIpAddress_associate_calls [OF resolved [of freeAddress]]
      AssociatePublicIpAddress_associate_calls [OF resolved [of "allocatedTo ''someNetID''"]]
      AssociatePublicIpAddress_associate_calls [OF resolved [of "allocatedTo ''otherNetID''"]]
      params answer stamps net
    by (simp add: associateCalls_def)
qed

subsection \<open>Firewall\<close>

text \<open>
  Claim C5.  When the remote call that creates the egress rule fails, \<open>OpenFirewallRules\<close>
  returns nil if the text of the error contains \<^verbatim>\<open>There is already\<close>, and the error
  itself otherwise.
\<close>

theorem OpenFirewallRules_already_exists:
  assumes "CreateEgressFirewallRule c
             (NewCreateEgressFirewallRuleParams (NetworkID (Status cl)) ''tcp'') w = (Some e, w1)"
  shows "fst (OpenFirewallRules c cl (w, tr)) =
           (if Contains (Error e) ''There is already'' then None else Some e)"
  using assms by (simp add: OpenFirewallRules_def invoke_def)

text \<open>The error of the test suite, and an error with another text.\<close>

theorem OpenFirewallRules_already_exists_witness:
  "fst (OpenFirewallRules (firewallClient (Some alreadyThere)) csClusterNet ((), [])) = None
   \<and> fst (OpenFirewallRules (firewallClient (Some unexpected)) csClusterNet ((), [])) = Some unexpected"
  using OpenFirewallRules_already_exists [of "firewallClient (Some alreadyThere)" csClusterNet "()"
      alreadyThere "()" "[]"]
    OpenFirewallRules_already_exists [of "firewallClient (Some unexpected)" csClusterNet "()"
      unexpected "()" "[]"]
  by (simp add: firewallClient_def mockClient_def alreadyThere_def unexpected_def)

subsection \<open>Load balancer\<close>

text \<open>
  Claim C6.  When the remote client returns a list of rules,
  \<open>ResolveLoadBalancerRuleDetails\<close> takes the first rule whose public port is the decimal
  numeral of the endpoint's port, writes its identity to \<open>LBRuleID\<close> and returns nil; when
  no rule has that port it returns the error \<^verbatim>\<open>no load balancer rule found\<close> and leaves
  the cluster object unchanged.
\<close>

theorem ResolveLoadBalancerRuleDetails_port_match:
  assumes "p = setIfNotEmpty (DomainID (Status cl)) (\<lambda>v q. q\<lparr>domainid_lr := Some v\<rparr>)
                 (setIfNotEmpty (Account (Spec cl)) (\<lambda>v q. q\<lparr>account_lr := Some v\<rparr>)
                    (NewListLoadBalancerRulesParams\<lparr>publicipid_lr := Some (PublicIPID (Status cl))\<rparr>))"
    and "ListLoadBalancerRules c p w = ((resp, None), w1)"
  shows "ResolveLoadBalancerRuleDetails c cl (w, tr) =
     (case find (\<lambda>rule. Publicport rule = Itoa (sint (Port (ControlPlaneEndpoint (Spec cl)))))
             (LoadBalancerRules resp) of
        Some rule \<Rightarrow>
          (None, cl\<lparr>Status := (Status cl)\<lparr>LBRuleID := Id_LoadBalancerRule rule\<rparr>\<rparr>,
           (w1, tr @ [CallListLoadBalancerRules p]))
      | None \<Rightarrow>
          (Some (errors_New ''no load balancer rule found''), cl,
           (w1, tr @ [CallListLoadBalancerRules p])))"
  using assms
  by (simp add: ResolveLoadBalancerRuleDetails_def invoke_def Let_def
      ResolveLoadBalancerRuleDetails_loop_find split: option.splits)

text \<open>Port 6443 with the rules 7443 and 6443, and with the rule 7443 alone.\<close>

theorem ResolveLoadBalancerRuleDetails_port_match_witness:
  "ResolveLoadBalancerRuleDetails
     (lbRulesClient [\<lparr>Id_LoadBalancerRule = ''otherRuleID'', Publicport = ''7443''\<rparr>,
                     \<lparr>Id_LoadBalancerRule = ''lbRuleID'', Publicport = ''6443''\<rparr>])
     csCluster0 ((), []) =
     (None, csCluster0\<lparr>Status := (Status csCluster0)\<lparr>LBRuleID := ''lbRuleID''\<rparr>\<rparr>,
      ((), [CallListLoadBalancerRules lbRulesParams0]))
   \<and> ResolveLoadBalancerRuleDetails
     (lbRulesClient [\<lparr>Id_LoadBalancerRule = ''otherRuleID'', Publicport = ''7443''\<rparr>])
     csCluster0 ((), []) =
     (Some (errors_New ''no load balancer rule found''), csCluster0,
      ((), [CallListLoadBalancerRules lbRulesParams0]))"
  using ResolveLoadBalancerRuleDetails_port_match [of lbRulesParams0 csCluster0
      "lbRulesClient [\<lparr>Id_LoadBalancerRule = ''otherRuleID'', Publicport = ''7443''\<rparr>,
                      \<lparr>Id_LoadBalancerRule = ''lbRuleID'', Publicport = ''6443''\<rparr>]" "()"
      "\<lparr>LoadBalancerRules = [\<lparr>Id_LoadBalancerRule = ''otherRuleID'', Publicport = ''7443''\<rparr>,
                      \<lparr>Id_LoadBalancerRule = ''lbRuleID'', Publicport = ''6443''\<rparr>]\<rparr>" "()" "[]"]
    ResolveLoadBalancerRuleDetails_port_match [of lbRulesParams0 csCluster0
      "lbRulesClient [\<lparr>Id_LoadBalancerRule = ''otherRuleID'', Publicport = ''7443''\<rparr>]" "()"
      "\<lparr>LoadBalancerRules = [\<lparr>Id_LoadBalancerRule = ''otherRuleID'', Publicport = ''7443''\<rparr>]\<rparr>" "()" "[]"]
  by (simp add: lbRulesClient_def mockClient_def csCluster0_def lbRulesParams0_def
      NewListLoadBalancerRulesParams_def setIfNotEmpty_def Itoa_def digit_def)

text \<open>
  Claim C7.  When the instances of the rule contain the identity,
  \<open>AssignVMToLoadBalancerRule\<close> returns nil and issues the list call only: the number of
  assignment calls does not grow.  In particular a second call, made in the state that a
  first call left and on the cluster object it left, issues no assignment call, whatever
  the first call did.
\<close>

theorem AssignVMToLoadBalancerRule_already_assigned:
  assumes "ListLoadBalancerRuleInstances c (LBRuleID (Status cl)) w = ((resp, None), w')"
    and "instanceID \<in> Id_VirtualMachine ` set (LoadBalancerRuleInstances resp)"
  shows "AssignVMToLoadBalancerRule c cl instanceID (w, tr) =
           (None, cl, (w', tr @ [CallListLoadBalancerRuleInstances (LBRuleID (Status cl))]))
       \<and> assignCalls (tr @ [CallListLoadBalancerRuleInstances (LBRuleID (Status cl))]) = assignCalls tr
       \<and> (\<forall>s0 r0 cl0.
             AssignVMToLoadBalancerRule c cl instanceID s0 = (r0, cl0, (w, tr)) \<longrightarrow>
             AssignVMToLoadBalancerRule c cl0 instanceID (w, tr) =
               (None, cl, (w', tr @ [CallListLoadBalancerRuleInstances (LBRuleID (Status cl))])))"
proof -
  have single: "AssignVMToLoadBalancerRule c cl instanceID (w, tr) =
      (None, cl, (w', tr @ [CallListLoadBalancerRuleInstances (LBRuleID (Status cl))]))"
    using AssignVMToLoadBalancerRule_present [OF assms] .
  have same: "cl0 = cl" if "AssignVMToLoadBalancerRule c cl instanceID s0 = (r0, cl0, (w, tr))"
    for s0 r0 cl0
    using AssignVMToLoadBalancerRule_cluster [of c cl instanceID s0] that by simp
  have twice: "AssignVMToLoadBalancerRule c cl0 instanceID (w, tr) =
      (None, cl, (w', tr @ [CallListLoadBalancerRuleInstances (LBRuleID (Status cl))]))"
    if "AssignVMToLoadBalancerRule c cl instanceID s0 = (r0, cl0, (w, tr))" for s0 r0 cl0
    using single same [OF that] by simp
  have calls: "assignCalls (tr @ [CallListLoadBalancerRuleInstances (LBRuleID (Status cl))]) = assignCalls tr"
    by (simp add: assignCalls_def)
  show ?thesis
    using single calls twice by blast
qed

text \<open>
  A rule with no instance: the first call assigns the instance, the second call finds it.
\<close>

theorem AssignVMToLoadBalancerRule_already_assigned_witness:
  "AssignVMToLoadBalancerRule lbPoolClient csCluster0 ''vm1'' ([], []) =
     (None, csCluster0, ([''vm1''],
        [CallListLoadBalancerRuleInstances '''',
         CallAssignToLoadBalancerRule \<lparr>id_al = '''', virtualmachineids_al = Some [''vm1'']\<rparr>]))
   \<and> AssignVMToLoadBalancerRule lbPoolClient csCluster0 ''vm1'' ([''vm1''],
        [CallListLoadBalancerRuleInstances '''',
         CallAssignToLoadBalancerRule \<lparr>id_al = '''', virtualmachineids_al = Some [''vm1'']\<rparr>]) =
     (None, csCluster0, ([''vm1''],
        [CallListLoadBalancerRuleInstances '''',
         CallAssignToLoadBalancerRule \<lparr>id_al = '''', virtualmachineids_al = Some [''vm1'']\<rparr>,
         CallListLoadBalancerRuleInstances '''']))
   \<and> assignCalls
        [CallListLoadBalancerRuleInstances '''',
         CallAssignToLoadBalancerRule \<lparr>id_al = '''', virtualmachineids_al = Some [''vm1'']\<rparr>,
         CallListLoadBalancerRuleInstances ''''] = 1"
proof -
  have first: "AssignVMToLoadBalancerRule lbPoolClient csCluster0 ''vm1'' ([], []) =
     (None, csCluster0, ([''vm1''],
        [CallListLoadBalancerRuleInstances '''',
         CallAssignToLoadBalancerRule \<lparr>id_al = '''', virtualmachineids_al = Some [''vm1'']\<rparr>]))"
    by (simp add: AssignVMToLoadBalancerRule_def invoke_def lbPoolClient_def mockClient_def
        csCluster0_def NewAssignToLoadBalancerRuleParams_def)
  have listed: "ListLoadBalancerRuleInstances lbPoolClient (LBRuleID (Status csCluster0)) [''vm1''] =
      ((\<lparr>LoadBalancerRuleInstances = [\<lparr>Id_VirtualMachine = ''vm1''\<rparr>]\<rparr>, None), [''vm1''])"
    by (simp add: lbPoolClient_def mockClient_def)
  have present: "''vm1'' \<in> Id_VirtualMachine `
      set (LoadBalancerRuleInstances \<lparr>LoadBalancerRuleInstances = [\<lparr>Id_VirtualMachine = ''vm1''\<rparr>]\<rparr>)"
    by simp
  have rule: "LBRuleID (Status csCluster0) = ''''"
    by (simp add: csCluster0_def)
  show ?thesis
    using AssignVMToLoadBalancerRule_already_assigned [OF listed present,
        of "[CallListLoadBalancerRuleInstances '''',
             CallAssignToLoadBalancerRule \<lparr>id_al = '''', virtualmachineids_al = Some [''vm1'']\<rparr>]"]
      first rule
    by (simp add: assignCalls_def)
qed

section \<open>Properties of the deletion path\<close>

lemma removed_before_destroy_append:
  "removed_before_destroy ok (tr @ tr') =
     (removed_before_destroy ok tr \<and>
      removed_before_destroy
        (case rev tr of [] \<Rightarrow> ok | CallRemoveVMFromCksCluster r # _ \<Rightarrow> r = None
                      | CallDestroyVMInstance r # _ \<Rightarrow> False) tr')"
  by (induction ok tr rule: removed_before_destroy.induct)
     (auto split: list.splits membership_call.splits)

lemma both_succeeded_append: "both_succeeded tr \<Longrightarrow> both_succeeded (tr @ tr')"
  by (induction tr rule: both_succeeded.induct) auto

lemma both_succeeded_end:
  "both_succeeded (tr @ [CallRemoveVMFromCksCluster None, CallDestroyVMInstance None])"
  by (induction tr rule: both_succeeded.induct) auto

text \<open>One pass on a marked machine ends in one of three ways.\<close>

lemma ReconcileDelete_cases:
  assumes "DeletionTimestamp m \<noteq> None"
    and "ReconcileDelete c True m (w, tr) = (err, m1, (w1, tr1))"
  shows "(\<exists>e. m1 = m \<and> tr1 = tr @ [CallRemoveVMFromCksCluster (Some e)])
   \<or> (\<exists>e. m1 = m \<and> tr1 = tr @ [CallRemoveVMFromCksCluster None, CallDestroyVMInstance (Some e)])
   \<or> (m1 = RemoveFinalizer m MachineFinalizer
        \<and> tr1 = tr @ [CallRemoveVMFromCksCluster None, CallDestroyVMInstance None])"
  using assms
  by (auto simp add: ReconcileDelete_def observe_def split: prod.splits option.splits)

lemma ReconcileDelete_invariant:
  assumes marked: "DeletionTimestamp m \<noteq> None"
    and ordered: "removed_before_destroy False tr"
    and gone: "MachineFinalizer \<notin> set (Finalizers m) \<longrightarrow> both_succeeded tr"
    and pass: "ReconcileDelete c True m (w, tr) = (err, m1, (w1, tr1))"
  shows "DeletionTimestamp m1 \<noteq> None \<and> removed_before_destroy False tr1
       \<and> (MachineFinalizer \<notin> set (Finalizers m1) \<longrightarrow> both_succeeded tr1)"
proof -
  from ReconcileDelete_cases [OF marked pass]
  consider (remove_failed) e where "m1 = m" "tr1 = tr @ [CallRemoveVMFromCksCluster (Some e)]"
    | (destroy_failed) e where "m1 = m"
        "tr1 = tr @ [CallRemoveVMFromCksCluster None, CallDestroyVMInstance (Some e)]"
    | (finished) "m1 = RemoveFinalizer m MachineFinalizer"
        "tr1 = tr @ [CallRemoveVMFromCksCluster None, CallDestroyVMInstance None]"
    by blast
  then show ?thesis
  proof cases
    case remove_failed
    then show ?thesis
      using marked ordered gone
      by (simp add: removed_before_destroy_append both_succeeded_append)
  next
    case destroy_failed
    then show ?thesis
      using marked ordered gone
      by (simp add: removed_before_destroy_append both_succeeded_append)
  next
    case finished
    then show ?thesis
      using marked ordered
      by (simp add: removed_before_destroy_append both_succeeded_end RemoveFinalizer_def)
  qed
qed

lemma retire_invariant:
  assumes "DeletionTimestamp m \<noteq> None"
    and "removed_before_destroy False tr"
    and "MachineFinalizer \<notin> set (Finalizers m) \<longrightarrow> both_succeeded tr"
    and "retire n c True m (w, tr) = (m', (w', tr'))"
  shows "removed_before_destroy False tr'
       \<and> (MachineFinalizer \<notin> set (Finalizers m') \<longrightarrow> both_succeeded tr')"
  using assms
proof (induction n arbitrary: m w tr)
  case 0
  then show ?case by simp
next
  case (Suc n)
  show ?case
  proof (cases "retrievable m")
    case False
    with Suc.prems show ?thesis by simp
  next
    case True
    obtain err m1 w1 tr1 where pass: "ReconcileDelete c True m (w, tr) = (err, m1, (w1, tr1))"
      by (metis prod_cases3)
    have rest: "retire n c True m1 (w1, tr1) = (m', (w', tr'))"
      using Suc.prems(4) True pass by simp
    have inv: "DeletionTimestamp m1 \<noteq> None \<and> removed_before_destroy False tr1
       \<and> (MachineFinalizer \<notin> set (Finalizers m1) \<longrightarrow> both_succeeded tr1)"
      using ReconcileDelete_invariant [OF Suc.prems(1) Suc.prems(2) Suc.prems(3) pass] .
    show ?thesis
      using Suc.IH [of m1 tr1 w1] inv rest by blast
  qed
qed

text \<open>
  Claim C8.  A machine that carries the marker is marked for deletion, in a cluster whose
  synchronization flag is on, and the deletion path runs any number of passes against any
  platform.  Then in the calls observed every \<open>DestroyVMInstance\<close> comes right after a
  \<open>RemoveVMFromCksCluster\<close> that returned nil; if the marker is gone, a removal and a
  destruction have both returned nil; and while the marker is there the record can be
  retrieved.  Readiness plays no part in the deletion path: the statement holds for a
  machine that is ready as for any other.
\<close>

theorem retire_removes_before_destroy:
  assumes "DeletionTimestamp m \<noteq> None"
    and "MachineFinalizer \<in> set (Finalizers m)"
    and "retire n c True m (w, []) = (m', (w', tr'))"
  shows "removed_before_destroy False tr'
       \<and> (MachineFinalizer \<notin> set (Finalizers m') \<longrightarrow> both_succeeded tr')
       \<and> (MachineFinalizer \<in> set (Finalizers m') \<longrightarrow> retrievable m')"
proof -
  have "removed_before_destroy False tr'
       \<and> (MachineFinalizer \<notin> set (Finalizers m') \<longrightarrow> both_succeeded tr')"
    using retire_invariant [of m "[]" n c w m' w' tr'] assms by simp
  moreover have "MachineFinalizer \<in> set (Finalizers m') \<longrightarrow> retrievable m'"
    by (auto simp add: retrievable_def)
  ultimately show ?thesis by simp
qed

text \<open>
  A platform on which the first removal and the first destruction fail: the marker is
  still there after two passes and gone after three.
\<close>

theorem retire_removes_before_destroy_witness:
  "retire 3 flakyClient True deletedMachine (0, []) =
     (deletedMachine\<lparr>Finalizers := []\<rparr>,
      (5, [CallRemoveVMFromCksCluster (Some transient),
           CallRemoveVMFromCksCluster None, CallDestroyVMInstance (Some transient),
           CallRemoveVMFromCksCluster None, CallDestroyVMInstance None]))
   \<and> removed_before_destroy False
        [CallRemoveVMFromCksCluster (Some transient),
         CallRemoveVMFromCksCluster None, CallDestroyVMInstance (Some transient),
         CallRemoveVMFromCksCluster None, CallDestroyVMInstance None]
   \<and> both_succeeded
        [CallRemoveVMFromCksCluster (Some transient),
         CallRemoveVMFromCksCluster None, CallDestroyVMInstance (Some transient),
         CallRemoveVMFromCksCluster None, CallDestroyVMInstance None]
   \<and> retire 2 flakyClient True deletedMachine (0, []) =
     (deletedMachine,
      (3, [CallRemoveVMFromCksCluster (Some transient),
           CallRemoveVMFromCksCluster None, CallDestroyVMInstance (Some transient)]))
   \<and> retrievable deletedMachine"
proof -
  have marked: "DeletionTimestamp deletedMachine \<noteq> None"
    by (simp add: deletedMachine_def)
  have marker: "MachineFinalizer \<in> set (Finalizers deletedMachine)"
    by (simp add: deletedMachine_def readyMachine_def)
  have three: "retire 3 flakyClient True deletedMachine (0, []) =
     (deletedMachine\<lparr>Finalizers := []\<rparr>,
      (5, [CallRemoveVMFromCksCluster (Some transient),
           CallRemoveVMFromCksCluster None, CallDestroyVMInstance (Some transient),
           CallRemoveVMFromCksCluster None, CallDestroyVMInstance None]))"
    by (simp add: numeral_3_eq_3 ReconcileDelete_def observe_def retrievable_def flakyClient_def
        deletedMachine_def readyMachine_def RemoveFinalizer_def)
  have two: "retire 2 flakyClient True deletedMachine (0, []) =
     (deletedMachine,
      (3, [CallRemoveVMFromCksCluster (Some transient),
           CallRemoveVMFromCksCluster None, CallDestroyVMInstance (Some transient)]))"
    by (simp add: numeral_2_eq_2 ReconcileDelete_def observe_def retrievable_def flakyClient_def
        deletedMachine_def readyMachine_def RemoveFinalizer_def)
  show ?thesis
    using retire_removes_before_destroy [OF marked marker three]
      retire_removes_before_destroy [OF marked marker two] three two marker
    by simp
qed

end
